theory Spec2Isabelle
  imports Main "HOL-Library.Word"
begin

unbundle bit_operations_syntax

section \<open>The colour mapper of the Connect 4 board\<close>

text \<open>
  The repository fragment is one enumeration and one function:
  \<^verbatim>\<open>
  enum PlayerColour { RED, YELLOW, EMPTY };          // include/PlayerColour.hpp

  uint32_t playerColourToNeopixelColour(PlayerColour colour) {   // src/PlayerColour.cpp
    switch (colour) {
    case RED:
      return 0xFF0000;
    case YELLOW:
      return 0xFFFF00;
    default:
      return 0x000000;
    }
  }
  \<close>
\<close>

subsection \<open>The enumeration\<close>

text \<open>
  \<open>PlayerColour\<close> is an unscoped C++ enumeration without a fixed underlying type. An object
  of that type holds an integer; the three enumerators name the values 0, 1 and 2 (no
  initialiser is given, so they count from zero), and a cast can put other integers there.
  The \<open>switch\<close> compares that integer with the case constants. The model therefore takes
  the input to be the integer the object holds, unbounded so that it covers every
  underlying type a compiler may choose, and the enumerators to be constants.
\<close>

type_synonym PlayerColour = int

definition RED :: PlayerColour where
  "RED = 0"

definition YELLOW :: PlayerColour where
  "YELLOW = 1"

definition EMPTY :: PlayerColour where
  "EMPTY = 2"

subsection \<open>The switch statement\<close>

text \<open>
  The body of the \<open>switch\<close> is a sequence of labels and statements. The only statement
  that occurs is \<open>return\<close> of a constant, converted to \<open>uint32_t\<close> (a 32-bit word).
\<close>

datatype stmt = Case PlayerColour | Default | Return "32 word"

text \<open>
  Executing a sequence of statements: labels do nothing, \<open>return\<close> ends the call with
  its value. Reaching the end of the sequence leaves the \<open>switch\<close>, and with it the body
  of the function, without a \<open>return\<close>: the call yields no value (\<open>None\<close>).
\<close>

fun exec_stmts :: "stmt list \<Rightarrow> 32 word option" where
  "exec_stmts [] = None"
| "exec_stmts (Return w # rest) = Some w"
| "exec_stmts (Case k # rest) = exec_stmts rest"
| "exec_stmts (Default # rest) = exec_stmts rest"

text \<open>The statements that follow the case label whose constant equals the value \<open>v\<close>.\<close>

fun goto_case :: "PlayerColour \<Rightarrow> stmt list \<Rightarrow> stmt list option" where
  "goto_case v [] = None"
| "goto_case v (Case k # rest) = (if k = v then Some rest else goto_case v rest)"
| "goto_case v (Default # rest) = goto_case v rest"
| "goto_case v (Return w # rest) = goto_case v rest"

text \<open>The statements that follow the \<open>default\<close> label.\<close>

fun goto_default :: "stmt list \<Rightarrow> stmt list option" where
  "goto_default [] = None"
| "goto_default (Default # rest) = Some rest"
| "goto_default (Case k # rest) = goto_default rest"
| "goto_default (Return w # rest) = goto_default rest"

text \<open>
  The \<open>switch\<close>: control passes to the matching case label; if there is none, to the
  \<open>default\<close> label; if there is none either, no statement of the body is executed.
\<close>

definition switch_stmt :: "PlayerColour \<Rightarrow> stmt list \<Rightarrow> 32 word option" where
  "switch_stmt v body =
     (case goto_case v body of
        Some rest \<Rightarrow> exec_stmts rest
      | None \<Rightarrow>
          (case goto_default body of
             Some rest \<Rightarrow> exec_stmts rest
           | None \<Rightarrow> None))"

subsection \<open>The function\<close>

text \<open>Lines 4 to 9 of \<^verbatim>\<open>src/PlayerColour.cpp\<close>, one element per line.\<close>

definition playerColourToNeopixelColour_body :: "stmt list" where
  "playerColourToNeopixelColour_body =
     [Case RED,
        Return 0xFF0000,
      Case YELLOW,
        Return 0xFFFF00,
      Default,
        Return 0x000000]"

text \<open>
  The value of a call, or \<open>None\<close> when the call would end without returning one.
\<close>

definition playerColourToNeopixelColour :: "PlayerColour \<Rightarrow> 32 word option" where
  "playerColourToNeopixelColour colour = switch_stmt colour playerColourToNeopixelColour_body"

subsection \<open>The switch statement as a relation\<close>

text \<open>
  The same semantics without a choice built in: \<open>at_label l body rest\<close> holds for the
  statements \<open>rest\<close> that follow any occurrence of the label \<open>l\<close> in \<open>body\<close>, and control
  passes to a case label with the value of the condition, or, when no case constant has that
  value, to a \<open>default\<close> label. A body with a repeated label would allow several
  continuations, and a body with no label to go to allows none.
\<close>

inductive at_label :: "stmt \<Rightarrow> stmt list \<Rightarrow> stmt list \<Rightarrow> bool" where
  here: "at_label l (l # rest) rest"
| later: "at_label l body rest \<Longrightarrow> at_label l (s # body) rest"

inductive passes_control :: "PlayerColour \<Rightarrow> stmt list \<Rightarrow> stmt list \<Rightarrow> bool" where
  matched: "at_label (Case v) body rest \<Longrightarrow> passes_control v body rest"
| unmatched: "Case v \<notin> set body \<Longrightarrow> at_label Default body rest \<Longrightarrow> passes_control v body rest"

text \<open>\<open>call_returns colour w\<close>: a call of the function with \<open>colour\<close> can return \<open>w\<close>.\<close>

inductive call_returns :: "PlayerColour \<Rightarrow> 32 word \<Rightarrow> bool" where
  returned: "passes_control colour playerColourToNeopixelColour_body rest \<Longrightarrow>
     exec_stmts rest = Some w \<Longrightarrow> call_returns colour w"

code_pred at_label .

code_pred passes_control .

code_pred call_returns .

subsection \<open>The packed colour format of the specification\<close>

text \<open>
  The specification describes the result as a packed RGB integer, \<open>R<<16 | G<<8 | B\<close>
  with 8-bit channels: red in bits 16 to 23, green in bits 8 to 15, blue in bits 0 to 7.
  These definitions follow the specification's words, not the code; the code only holds
  the three literals.
\<close>

definition spec_packed_rgb :: "8 word \<Rightarrow> 8 word \<Rightarrow> 8 word \<Rightarrow> 32 word" where
  "spec_packed_rgb r g b = push_bit 16 (ucast r) OR push_bit 8 (ucast g) OR ucast b"

definition spec_red_bits :: "32 word \<Rightarrow> 8 word" where
  "spec_red_bits w = ucast (drop_bit 16 w)"

definition spec_green_bits :: "32 word \<Rightarrow> 8 word" where
  "spec_green_bits w = ucast (drop_bit 8 w)"

definition spec_blue_bits :: "32 word \<Rightarrow> 8 word" where
  "spec_blue_bits w = ucast w"

text \<open>
  The R, G and B columns of the specification's output table: RED is (255, 0, 0), YELLOW
  is (255, 255, 0), EMPTY and any other value are (0, 0, 0).
\<close>

definition spec_rgb :: "PlayerColour \<Rightarrow> 8 word \<times> 8 word \<times> 8 word" where
  "spec_rgb colour =
     (if colour = RED then (255, 0, 0)
      else if colour = YELLOW then (255, 255, 0)
      else (0, 0, 0))"

section \<open>Properties\<close>

subsection \<open>Auxiliary facts\<close>

lemma enumerators_distinct:
  "RED \<noteq> YELLOW" "RED \<noteq> EMPTY" "YELLOW \<noteq> EMPTY"
  "YELLOW \<noteq> RED" "EMPTY \<noteq> RED" "EMPTY \<noteq> YELLOW"
  by (simp_all add: RED_def YELLOW_def EMPTY_def)

text \<open>The function as a conditional: what the three arms of the \<open>switch\<close> compute.\<close>

lemma playerColourToNeopixelColour_eq:
  "playerColourToNeopixelColour colour =
     Some (if colour = RED then 0xFF0000 else if colour = YELLOW then 0xFFFF00 else 0x000000)"
  by (simp add: playerColourToNeopixelColour_def switch_stmt_def
      playerColourToNeopixelColour_body_def RED_def YELLOW_def)

inductive_simps at_label_Nil: "at_label l [] rest"

inductive_simps at_label_Cons: "at_label l (s # body) rest"

text \<open>
  In this body every label occurs once, so for each value control can pass to one place
  only.
\<close>

lemma passes_control_body:
  "passes_control colour playerColourToNeopixelColour_body rest \<longleftrightarrow>
     rest =
       (if colour = RED
        then [Return 0xFF0000, Case YELLOW, Return 0xFFFF00, Default, Return 0x000000]
        else if colour = YELLOW then [Return 0xFFFF00, Default, Return 0x000000]
        else [Return 0x000000])"
  by (auto simp: passes_control.simps playerColourToNeopixelColour_body_def
      at_label_Nil at_label_Cons RED_def YELLOW_def)

text \<open>The relation and the function describe the same calls.\<close>

lemma call_returns_iff:
  "call_returns colour w \<longleftrightarrow> playerColourToNeopixelColour colour = Some w"
  by (auto simp: call_returns.simps passes_control_body playerColourToNeopixelColour_eq)

subsection \<open>The output table\<close>

text \<open>
  Claim C1. For each of the three enumerators the function returns the literal of the
  specification's table: \<open>0xFF0000\<close> for RED, \<open>0xFFFF00\<close> for YELLOW and \<open>0x000000\<close>
  for EMPTY.
\<close>

theorem playerColourToNeopixelColour_table:
  "playerColourToNeopixelColour RED = Some 0xFF0000 \<and>
   playerColourToNeopixelColour YELLOW = Some 0xFFFF00 \<and>
   playerColourToNeopixelColour EMPTY = Some 0x000000"
  by (simp add: playerColourToNeopixelColour_eq enumerators_distinct)

text \<open>
  Claim C2. For every input that is neither RED nor YELLOW, EMPTY and every integer
  outside the enumerators included, the call returns \<open>0x000000\<close>; it returns a value
  (\<open>Some\<close>), it does not fail.
\<close>

theorem playerColourToNeopixelColour_otherwise:
  "colour \<noteq> RED \<Longrightarrow> colour \<noteq> YELLOW \<Longrightarrow>
     playerColourToNeopixelColour colour = Some 0x000000"
  by (simp add: playerColourToNeopixelColour_eq)

text \<open>
  The hypotheses of C2 hold at EMPTY, at 3 (the one value outside the enumerators that the
  enumeration's value range has) and at the integers -1 and 255, which only a cast produces.
\<close>

theorem playerColourToNeopixelColour_otherwise_witness:
  "EMPTY \<noteq> RED \<and> EMPTY \<noteq> YELLOW \<and> playerColourToNeopixelColour EMPTY = Some 0x000000 \<and>
   3 \<noteq> RED \<and> 3 \<noteq> YELLOW \<and> playerColourToNeopixelColour 3 = Some 0x000000 \<and>
   - 1 \<noteq> RED \<and> - 1 \<noteq> YELLOW \<and> playerColourToNeopixelColour (- 1) = Some 0x000000 \<and>
   255 \<noteq> RED \<and> 255 \<noteq> YELLOW \<and> playerColourToNeopixelColour 255 = Some 0x000000"
proof -
  have e: "EMPTY \<noteq> RED" "EMPTY \<noteq> YELLOW"
    by (simp_all add: enumerators_distinct)
  have t: "3 \<noteq> RED" "3 \<noteq> YELLOW"
    by (simp_all add: RED_def YELLOW_def)
  have m: "- 1 \<noteq> RED" "- 1 \<noteq> YELLOW"
    by (simp_all add: RED_def YELLOW_def)
  have b: "255 \<noteq> RED" "255 \<noteq> YELLOW"
    by (simp_all add: RED_def YELLOW_def)
  show ?thesis
    using e t m b
      playerColourToNeopixelColour_otherwise [OF e]
      playerColourToNeopixelColour_otherwise [OF t]
      playerColourToNeopixelColour_otherwise [OF m]
      playerColourToNeopixelColour_otherwise [OF b]
    by simp
qed

text \<open>
  Claim C3. For every input the result is one of the three constants \<open>0xFF0000\<close>,
  \<open>0xFFFF00\<close> and \<open>0x000000\<close>, and the set of results has exactly these three members.
\<close>

theorem playerColourToNeopixelColour_codomain:
  "playerColourToNeopixelColour colour \<in> {Some 0xFF0000, Some 0xFFFF00, Some 0x000000} \<and>
   range playerColourToNeopixelColour = {Some 0xFF0000, Some 0xFFFF00, Some 0x000000} \<and>
   card (range playerColourToNeopixelColour) = 3"
proof -
  have member: "playerColourToNeopixelColour c \<in> {Some 0xFF0000, Some 0xFFFF00, Some 0x000000}"
    for c
    by (simp add: playerColourToNeopixelColour_eq)
  have "playerColourToNeopixelColour RED \<in> range playerColourToNeopixelColour"
    and "playerColourToNeopixelColour YELLOW \<in> range playerColourToNeopixelColour"
    and "playerColourToNeopixelColour EMPTY \<in> range playerColourToNeopixelColour"
    by (rule rangeI)+
  then have "{Some 0xFF0000, Some 0xFFFF00, Some 0x000000} \<subseteq> range playerColourToNeopixelColour"
    by (simp add: playerColourToNeopixelColour_eq enumerators_distinct)
  moreover have "range playerColourToNeopixelColour \<subseteq> {Some 0xFF0000, Some 0xFFFF00, Some 0x000000}"
    using member by blast
  ultimately have range_eq:
    "range playerColourToNeopixelColour = {Some 0xFF0000, Some 0xFFFF00, Some 0x000000}"
    by (rule subset_antisym [rotated])
  have "card {Some (0xFF0000 :: 32 word), Some 0xFFFF00, Some 0x000000} = 3"
    by simp
  with member range_eq show ?thesis
    by simp
qed

subsection \<open>Every call returns, and returns one value\<close>

text \<open>
  Claim C4. The function is total and cannot fail: for every input the call returns a
  32-bit value, both as computed (\<open>Some\<close>, never \<open>None\<close>) and in the relational reading
  of the \<open>switch\<close> (control has a label to pass to, and a \<open>return\<close> follows it).
\<close>

theorem playerColourToNeopixelColour_total:
  "(\<exists>w. playerColourToNeopixelColour colour = Some w) \<and> (\<exists>w. call_returns colour w)"
  by (simp add: call_returns_iff playerColourToNeopixelColour_eq)

text \<open>
  Claim C5. The function is deterministic: two calls with the same input return
  bit-identical values. In the relational reading, where control may pass to any label that
  fits, no input has two different results.
\<close>

theorem call_returns_deterministic:
  "call_returns colour w \<Longrightarrow> call_returns colour w' \<Longrightarrow> w = w'"
proof -
  assume first: "call_returns colour w" and second: "call_returns colour w'"
  from first obtain rest where
    r: "passes_control colour playerColourToNeopixelColour_body rest" "exec_stmts rest = Some w"
    by (auto simp: call_returns.simps)
  from second obtain rest' where
    r': "passes_control colour playerColourToNeopixelColour_body rest'" "exec_stmts rest' = Some w'"
    by (auto simp: call_returns.simps)
  from r(1) r'(1) have "rest = rest'"
    by (simp only: passes_control_body)
  with r(2) r'(2) show "w = w'"
    by simp
qed

text \<open>
  The hypotheses of C5 hold for two calls with YELLOW, the result written in two ways.
\<close>

theorem call_returns_deterministic_witness:
  "call_returns YELLOW 0xFFFF00 \<and> call_returns YELLOW (0xFF0000 OR 0x00FF00) \<and>
   (0xFFFF00 :: 32 word) = 0xFF0000 OR 0x00FF00"
proof -
  have one: "call_returns YELLOW 0xFFFF00"
    by (simp add: call_returns_iff playerColourToNeopixelColour_eq enumerators_distinct)
  have two: "call_returns YELLOW (0xFF0000 OR 0x00FF00)"
    by (simp add: call_returns_iff playerColourToNeopixelColour_eq enumerators_distinct)
  from one two call_returns_deterministic [OF one two] show ?thesis
    by (intro conjI)
qed

subsection \<open>The packed colour\<close>

text \<open>
  Claim C6. For every input the returned value fits in 24 bits, that is, it is less than
  \<open>2 ^ 24\<close>, and it is the packed value \<open>R<<16 | G<<8 | B\<close> of the 8-bit channels the
  specification's table gives for that input, with red in bits 16 to 23, green in bits 8 to
  15 and blue in bits 0 to 7.
\<close>

theorem playerColourToNeopixelColour_packed_rgb:
  "\<exists>w r g b.
     playerColourToNeopixelColour colour = Some w \<and> spec_rgb colour = (r, g, b) \<and>
     unat w < 2 ^ 24 \<and> w = spec_packed_rgb r g b \<and>
     spec_red_bits w = r \<and> spec_green_bits w = g \<and> spec_blue_bits w = b"
  by (simp add: playerColourToNeopixelColour_eq spec_rgb_def spec_packed_rgb_def
      spec_red_bits_def spec_green_bits_def spec_blue_bits_def)

text \<open>
  Claim C10. For every input the blue channel of the result is zero: bits 0 to 7 are 0,
  and the result is divisible by 256.
\<close>

theorem playerColourToNeopixelColour_blue_zero:
  "\<exists>w. playerColourToNeopixelColour colour = Some w \<and>
     take_bit 8 w = 0 \<and> w AND 0xFF = 0 \<and> spec_blue_bits w = 0 \<and> 256 dvd unat w"
  by (simp add: playerColourToNeopixelColour_eq spec_blue_bits_def)

subsection \<open>The colours can be told apart\<close>

text \<open>
  Claim C9. The function is injective on the three enumerators: RED, YELLOW and EMPTY are
  three values, a call with each of them returns a value, and the three returned values are
  pairwise distinct, so the colours of the two players differ from each other and from that
  of an empty cell. A call that returned nothing does not count as an output of its own:
  each of the three calls is required to return.
\<close>

theorem playerColourToNeopixelColour_inj_on_enumerators:
  "\<exists>a b c.
     playerColourToNeopixelColour RED = Some a \<and>
     playerColourToNeopixelColour YELLOW = Some b \<and>
     playerColourToNeopixelColour EMPTY = Some c \<and>
     distinct [a, b, c] \<and>
     inj_on playerColourToNeopixelColour {RED, YELLOW, EMPTY} \<and>
     card {RED, YELLOW, EMPTY} = 3 \<and>
     playerColourToNeopixelColour RED \<noteq> playerColourToNeopixelColour YELLOW \<and>
     playerColourToNeopixelColour RED \<noteq> playerColourToNeopixelColour EMPTY \<and>
     playerColourToNeopixelColour YELLOW \<noteq> playerColourToNeopixelColour EMPTY"
  by (simp add: playerColourToNeopixelColour_eq enumerators_distinct)

end
